theory Spec2Isabelle
  imports Complex_Main
begin

section \<open>CT quality control: measurement evaluation of streamlit_app.py\<close>

text \<open>
  The evaluation rules of \<^verbatim>\<open>src/streamlit_app.py\<close>, one definition per section
  function. Python floats are modelled as \<^typ>\<open>real\<close>: every claim below is about
  comparisons and exact arithmetic identities, rounding is not modelled. A status
  string of the source is a constructor of \<open>status\<close>; exceptions and the
  \<^verbatim>\<open>st.error\<close> branch are values of \<open>error\<close>.
\<close>

subsection \<open>Shared data\<close>

datatype status =
    Pass        \<comment> \<open>"Pass", "Pass - Below Reference"\<close>
  | Minor       \<comment> \<open>"Minor - Above Reference, Below P/F"\<close>
  | MajorFail   \<comment> \<open>"Major Fail - Above Pass/Fail Limit"\<close>
  | Fail        \<comment> \<open>"Fail"\<close>
  | Monitor     \<comment> \<open>"Monitor"\<close>

datatype error =
    ZeroDivisionError      \<comment> \<open>float division by zero\<close>
  | KeyError               \<comment> \<open>subscript of a dict with a missing key\<close>
  | InvalidMeasurements    \<comment> \<open>\<^verbatim>\<open>st.error("Please enter valid CTDI measurements")\<close>\<close>

text \<open>Python's \<^verbatim>\<open>a / b\<close> on floats raises on a zero divisor.\<close>

definition truediv :: "real \<Rightarrow> real \<Rightarrow> error + real" where
  "truediv a b = (if b = 0 then Inl ZeroDivisionError else Inr (a / b))"

text \<open>\<^verbatim>\<open>d.get(k, default)\<close> and \<^verbatim>\<open>d[k]\<close> on a dict literal with string keys.\<close>

definition dict_get :: "(string \<times> 'v) list \<Rightarrow> string \<Rightarrow> 'v \<Rightarrow> 'v" where
  "dict_get d k dflt = (case map_of d k of None \<Rightarrow> dflt | Some v \<Rightarrow> v)"

definition dict_item :: "(string \<times> 'v) list \<Rightarrow> string \<Rightarrow> error + 'v" where
  "dict_item d k = (case map_of d k of None \<Rightarrow> Inl KeyError | Some v \<Rightarrow> Inr v)"

subsection \<open>Dosimetry (dosimetry_section)\<close>

record acr_limit =
  ref :: real
  pf :: real
  phantom :: string

definition acr_limits :: "(string \<times> acr_limit) list" where
  "acr_limits =
    [(''Adult Abdomen'', \<lparr>ref = 25, pf = 30, phantom = ''32cm''\<rparr>),
     (''Adult Head'', \<lparr>ref = 75, pf = 80, phantom = ''16cm''\<rparr>),
     (''Ped Abd (45lb)'', \<lparr>ref = 7.5, pf = 10, phantom = ''32cm''\<rparr>),
     (''Ped Head (1y)'', \<lparr>ref = 35, pf = 40, phantom = ''16cm''\<rparr>)]"

text \<open>Line 319: \<^verbatim>\<open>ctdi_periphery_avg = (ctdi_top + ctdi_bottom + ctdi_left + ctdi_right) / 4\<close>.\<close>

definition ctdi_periphery_avg :: "real \<Rightarrow> real \<Rightarrow> real \<Rightarrow> real \<Rightarrow> real" where
  "ctdi_periphery_avg ctdi_top ctdi_bottom ctdi_left ctdi_right =
     (ctdi_top + ctdi_bottom + ctdi_left + ctdi_right) / 4"

text \<open>Line 341: \<^verbatim>\<open>ctdi_w = (ctdi_center + 4 * ctdi_periphery_avg) / 5\<close>.\<close>

definition ctdi_w_of :: "real \<Rightarrow> real \<Rightarrow> real \<Rightarrow> real \<Rightarrow> real \<Rightarrow> real" where
  "ctdi_w_of ctdi_center ctdi_top ctdi_bottom ctdi_left ctdi_right =
     (ctdi_center + 4 * ctdi_periphery_avg ctdi_top ctdi_bottom ctdi_left ctdi_right) / 5"

text \<open>Lines 371-379: the if/elif/else chain on \<^verbatim>\<open>limit["ref"]\<close> and \<^verbatim>\<open>limit["pf"]\<close>.\<close>

definition ctdi_status :: "real \<Rightarrow> real \<Rightarrow> real \<Rightarrow> status" where
  "ctdi_status ctdi_w lim_ref lim_pf =
     (if ctdi_w \<le> lim_ref then Pass
      else if ctdi_w \<le> lim_pf then Minor
      else MajorFail)"

text \<open>
  The entry saved under \<^verbatim>\<open>qc_data['dosimetry_results'][protocol_type]\<close>. The scan
  parameters (kVp, mA, rotation time, mAs, nT) and the date are copied through from
  the form unchanged and are left out.
\<close>

record dosimetry_result =
  r_ctdi_center :: real
  r_ctdi_periphery :: real
  r_ctdi_w :: real
  r_pct_ref :: real
  r_pct_pf :: real
  r_status :: status

text \<open>
  The body of the button handler, lines 339-405, without the store: the guard on the
  centre reading and the peripheral average, then the limits lookup (a subscript), the
  two percentages and the status.
\<close>

definition dosimetry_calculate ::
  "string \<Rightarrow> real \<Rightarrow> real \<Rightarrow> real \<Rightarrow> real \<Rightarrow> real \<Rightarrow> error + dosimetry_result" where
  "dosimetry_calculate protocol_type ctdi_center ctdi_top ctdi_bottom ctdi_left ctdi_right =
     (let avg = ctdi_periphery_avg ctdi_top ctdi_bottom ctdi_left ctdi_right in
      if ctdi_center > 0 \<and> avg > 0 then
        (let ctdi_w = (ctdi_center + 4 * avg) / 5 in
         case dict_item acr_limits protocol_type of
           Inl e \<Rightarrow> Inl e
         | Inr limit \<Rightarrow>
             (case truediv ctdi_w (ref limit) of
                Inl e \<Rightarrow> Inl e
              | Inr q_ref \<Rightarrow>
                  (case truediv ctdi_w (pf limit) of
                     Inl e \<Rightarrow> Inl e
                   | Inr q_pf \<Rightarrow>
                       Inr \<lparr>r_ctdi_center = ctdi_center,
                            r_ctdi_periphery = avg,
                            r_ctdi_w = ctdi_w,
                            r_pct_ref = q_ref * 100,
                            r_pct_pf = q_pf * 100,
                            r_status = ctdi_status ctdi_w (ref limit) (pf limit)\<rparr>)))
      else Inl InvalidMeasurements)"

text \<open>
  The handler with the session store \<^verbatim>\<open>qc_data['dosimetry_results']\<close> passed
  explicitly: a result is written under the protocol, an error leaves the store as
  it was.
\<close>

type_synonym dosimetry_store = "string \<rightharpoonup> dosimetry_result"

definition dosimetry_section ::
  "dosimetry_store \<Rightarrow> string \<Rightarrow> real \<Rightarrow> real \<Rightarrow> real \<Rightarrow> real \<Rightarrow> real
     \<Rightarrow> (error + dosimetry_result) \<times> dosimetry_store" where
  "dosimetry_section store protocol_type ctdi_center ctdi_top ctdi_bottom ctdi_left ctdi_right =
     (case dosimetry_calculate protocol_type ctdi_center ctdi_top ctdi_bottom ctdi_left ctdi_right of
        Inl e \<Rightarrow> (Inl e, store)
      | Inr res \<Rightarrow> (Inr res, store(protocol_type \<mapsto> res)))"

subsection \<open>Beam collimation (beam_collimation_section)\<close>

text \<open>
  Row \<open>i\<close> of the four columns of \<^verbatim>\<open>test_data\<close> (n, T, Measured (mR), Nominal nT),
  lines 449-454.
\<close>

record collimation_test =
  t_n :: nat
  t_T :: real
  t_measured :: real
  t_nominal :: real

definition test_data :: "collimation_test list" where
  "test_data =
    [\<lparr>t_n = 4, t_T = 3.75, t_measured = 470.3, t_nominal = 15\<rparr>,
     \<lparr>t_n = 8, t_T = 1.25, t_measured = 346.5, t_nominal = 10\<rparr>,
     \<lparr>t_n = 4, t_T = 1.25, t_measured = 195.7, t_nominal = 5\<rparr>,
     \<lparr>t_n = 2, t_T = 0.625, t_measured = 45.46, t_nominal = 1.25\<rparr>]"

record beam_row =
  b_nominal :: real
  b_measured :: real
  b_beam_width :: real
  b_error :: real
  b_criteria :: real
  b_result :: status

text \<open>
  The loop body, lines 459-483. The division is guarded by \<^verbatim>\<open>cal_dp_l > 0\<close>, so it
  cannot raise; the other branch of the conditional expression is the constant 0.
\<close>

definition beam_row_of :: "real \<Rightarrow> collimation_test \<Rightarrow> beam_row" where
  "beam_row_of cal_dp_l test =
     (let measured = t_measured test;
          nominal_nt = t_nominal test;
          beam_width = (if cal_dp_l > 0 then measured / cal_dp_l else 0);
          err = beam_width - nominal_nt;
          thirty_pct = nominal_nt * 0.3;
          criteria = max thirty_pct 3.0;
          pass_fail = (if \<bar>err\<bar> \<le> criteria then Pass else Fail)
      in \<lparr>b_nominal = nominal_nt, b_measured = measured, b_beam_width = beam_width,
           b_error = err, b_criteria = criteria, b_result = pass_fail\<rparr>)"

text \<open>Lines 485-491: the overall line is shown only when there are rows.\<close>

definition beam_overall :: "beam_row list \<Rightarrow> status option" where
  "beam_overall results =
     (if results = [] then None
      else Some (if list_all (\<lambda>row. b_result row = Pass) results then Pass else Fail))"

text \<open>
  Lines 441-491. \<^verbatim>\<open>cal_dp_l\<close> is computed (line 442) when both readings are positive,
  by an unguarded division by the mask length; the rows are computed (line 457) when
  the mask length is positive as well.
\<close>

definition beam_collimation_section ::
  "real \<Rightarrow> real \<Rightarrow> real \<Rightarrow> error + (beam_row list \<times> status option)" where
  "beam_collimation_section mask_length without_mask with_mask =
     (if without_mask > 0 \<and> with_mask > 0 then
        (case truediv (without_mask - with_mask) mask_length of
           Inl e \<Rightarrow> Inl e
         | Inr cal_dp_l \<Rightarrow>
             (let results = (if mask_length > 0 then map (beam_row_of cal_dp_l) test_data else [])
              in Inr (results, beam_overall results)))
      else Inr ([], None))"

subsection \<open>CT number accuracy (ct_number_accuracy_section)\<close>

text \<open>
  The four keys of \<^verbatim>\<open>measurements\<close> and \<^verbatim>\<open>materials_ref\<close> are fixed by the source,
  so a material is a constructor and the reference table a total function.
\<close>

datatype material = Air | Acrylic | Water | Bone

record material_ref =
  expected :: real
  tolerance :: real

definition materials_ref :: "material \<Rightarrow> material_ref" where
  "materials_ref m =
     (case m of
        Air \<Rightarrow> \<lparr>expected = - 1000, tolerance = 100\<rparr>
      | Acrylic \<Rightarrow> \<lparr>expected = 120, tolerance = 40\<rparr>
      | Water \<Rightarrow> \<lparr>expected = 0, tolerance = 7\<rparr>
      | Bone \<Rightarrow> \<lparr>expected = 850, tolerance = 100\<rparr>)"

record ct_row =
  c_material :: material
  c_measured :: real
  c_expected :: real
  c_difference :: real
  c_tolerance :: real
  c_result :: status

text \<open>
  The loop body, lines 543-565, over a reference table \<open>tbl\<close> (the source reads
  \<^verbatim>\<open>materials_ref\<close>): water is compared with the literal 7, every other material
  with its table tolerance.
\<close>

definition pass_criteria :: "(material \<Rightarrow> material_ref) \<Rightarrow> material \<Rightarrow> real \<Rightarrow> bool" where
  "pass_criteria tbl mat measured_value =
     (let expected_value = expected (tbl mat);
          tol = tolerance (tbl mat);
          difference = measured_value - expected_value
      in if mat = Water then \<bar>difference\<bar> \<le> 7 else \<bar>difference\<bar> \<le> tol)"

definition ct_row_of :: "(material \<Rightarrow> material_ref) \<Rightarrow> material \<Rightarrow> real \<Rightarrow> ct_row" where
  "ct_row_of tbl mat measured_value =
     \<lparr>c_material = mat, c_measured = measured_value,
      c_expected = expected (tbl mat),
      c_difference = measured_value - expected (tbl mat),
      c_tolerance = tolerance (tbl mat),
      c_result = (if pass_criteria tbl mat measured_value then Pass else Fail)\<rparr>"

text \<open>The loop of lines 539-565 with its two accumulators, \<^verbatim>\<open>results\<close> and \<^verbatim>\<open>all_pass\<close>.\<close>

fun ct_number_loop ::
  "(material \<Rightarrow> material_ref) \<Rightarrow> (material \<times> real) list \<Rightarrow> ct_row list \<Rightarrow> bool
     \<Rightarrow> ct_row list \<times> bool" where
  "ct_number_loop tbl [] results all_pass = (results, all_pass)"
| "ct_number_loop tbl ((mat, measured_value) # rest) results all_pass =
     ct_number_loop tbl rest (results @ [ct_row_of tbl mat measured_value])
       (if \<not> pass_criteria tbl mat measured_value then False else all_pass)"

text \<open>
  The handler, lines 536-571: the measurements in the insertion order of the dict,
  the rows, and the overall status.
\<close>

definition ct_number_accuracy_section ::
  "real \<Rightarrow> real \<Rightarrow> real \<Rightarrow> real \<Rightarrow> ct_row list \<times> bool \<times> status" where
  "ct_number_accuracy_section air acrylic water bone =
     (let measurements = [(Air, air), (Acrylic, acrylic), (Water, water), (Bone, bone)];
          (results, all_pass) = ct_number_loop materials_ref measurements [] True
      in (results, all_pass, if all_pass then Pass else Fail))"

subsection \<open>Low contrast resolution (low_contrast_resolution_section)\<close>

text \<open>The twelve checkboxes of the \<^verbatim>\<open>visibility\<close> dict, named size then contrast.\<close>

record visibility =
  vis_6mm_03 :: bool
  vis_6mm_05 :: bool
  vis_6mm_10 :: bool
  vis_4mm_03 :: bool
  vis_4mm_05 :: bool
  vis_4mm_10 :: bool
  vis_3mm_03 :: bool
  vis_3mm_05 :: bool
  vis_3mm_10 :: bool
  vis_2mm_03 :: bool
  vis_2mm_05 :: bool
  vis_2mm_10 :: bool

text \<open>\<^verbatim>\<open>sum\<close> of a list of booleans.\<close>

definition count_true :: "bool list \<Rightarrow> nat" where
  "count_true bs = length (filter (\<lambda>b. b) bs)"

definition total_visible_of :: "visibility \<Rightarrow> nat" where
  "total_visible_of vis =
     (let objects_6mm = count_true [vis_6mm_03 vis, vis_6mm_05 vis, vis_6mm_10 vis];
          objects_4mm = count_true [vis_4mm_03 vis, vis_4mm_05 vis, vis_4mm_10 vis];
          objects_3mm = count_true [vis_3mm_03 vis, vis_3mm_05 vis, vis_3mm_10 vis];
          objects_2mm = count_true [vis_2mm_03 vis, vis_2mm_05 vis, vis_2mm_10 vis]
      in objects_6mm + objects_4mm + objects_3mm + objects_2mm)"

text \<open>Line 658: \<^verbatim>\<open>cnr = (signal - noise) / noise_sd if noise_sd > 0 else 0\<close>.\<close>

definition cnr_of :: "real \<Rightarrow> real \<Rightarrow> real \<Rightarrow> error + real" where
  "cnr_of signal noise noise_sd =
     (if noise_sd > 0 then truediv (signal - noise) noise_sd else Inr 0)"

definition cnr_criteria :: "(string \<times> real) list" where
  "cnr_criteria =
    [(''Adult Head'', 1.0), (''Adult Abdomen'', 1.0), (''Ped Head'', 0.7), (''Ped Abd'', 0.4)]"

text \<open>Line 668: \<^verbatim>\<open>cnr_required = cnr_criteria.get(protocol, 1.0)\<close>.\<close>

definition cnr_required_of :: "string \<Rightarrow> real" where
  "cnr_required_of protocol = dict_get cnr_criteria protocol 1.0"

record lcr_result =
  l_total_visible :: nat
  l_minimum_met :: bool
  l_cnr :: real
  l_cnr_required :: real
  l_min_status :: status
  l_cnr_status :: status
  l_overall_pass :: bool
  l_overall_status :: status

text \<open>The handler, lines 645-722.\<close>

definition low_contrast_resolution_section ::
  "visibility \<Rightarrow> string \<Rightarrow> real \<Rightarrow> real \<Rightarrow> real \<Rightarrow> error + lcr_result" where
  "low_contrast_resolution_section vis protocol signal noise noise_sd =
     (let total_visible = total_visible_of vis;
          minimum_met = vis_6mm_03 vis
      in case cnr_of signal noise noise_sd of
           Inl e \<Rightarrow> Inl e
         | Inr cnr \<Rightarrow>
             (let cnr_required = cnr_required_of protocol;
                  cnr_pass = (cnr \<ge> cnr_required);
                  overall_pass = (minimum_met \<and> cnr_pass)
              in Inr \<lparr>l_total_visible = total_visible,
                      l_minimum_met = minimum_met,
                      l_cnr = cnr,
                      l_cnr_required = cnr_required,
                      l_min_status = (if minimum_met then Pass else Fail),
                      l_cnr_status = (if cnr_pass then Pass else Fail),
                      l_overall_pass = overall_pass,
                      l_overall_status = (if overall_pass then Pass else Fail)\<rparr>))"

subsection \<open>CT number uniformity (ct_uniformity_section)\<close>

text \<open>\<^verbatim>\<open>max\<close> and \<^verbatim>\<open>min\<close> of a list literal that has a first element.\<close>

definition max_of :: "real \<Rightarrow> real list \<Rightarrow> real" where
  "max_of x xs = fold max xs x"

definition min_of :: "real \<Rightarrow> real list \<Rightarrow> real" where
  "min_of x xs = fold min xs x"

text \<open>
  Line 764: \<^verbatim>\<open>((roi_max - roi_min) / (roi_max + roi_min)) * 100 if (roi_max + roi_min) != 0 else 0\<close>.
\<close>

definition non_uniformity_of :: "real \<Rightarrow> real \<Rightarrow> error + real" where
  "non_uniformity_of roi_max roi_min =
     (if roi_max + roi_min \<noteq> 0 then
        (case truediv (roi_max - roi_min) (roi_max + roi_min) of
           Inl e \<Rightarrow> Inl e
         | Inr q \<Rightarrow> Inr (q * 100))
      else Inr 0)"

record uniformity_result =
  u_max_difference :: real
  u_roi_max :: real
  u_roi_min :: real
  u_non_uniformity :: real
  u_uniformity_pass :: bool
  u_status :: status
  u_position_status :: "status list"

text \<open>The handler, lines 755-800.\<close>

definition ct_uniformity_section ::
  "real \<Rightarrow> real \<Rightarrow> real \<Rightarrow> real \<Rightarrow> real \<Rightarrow> error + uniformity_result" where
  "ct_uniformity_section center_roi top_roi bottom_roi left_roi right_roi =
     (let peripheral_rois = [top_roi, bottom_roi, left_roi, right_roi];
          differences = map (\<lambda>roi. \<bar>roi - center_roi\<bar>) peripheral_rois;
          max_difference = max_of (hd differences) (tl differences);
          roi_max = max_of center_roi peripheral_rois;
          roi_min = min_of center_roi peripheral_rois
      in case non_uniformity_of roi_max roi_min of
           Inl e \<Rightarrow> Inl e
         | Inr non_uniformity \<Rightarrow>
             (let uniformity_pass = (max_difference \<le> 5.0)
              in Inr \<lparr>u_max_difference = max_difference,
                      u_roi_max = roi_max,
                      u_roi_min = roi_min,
                      u_non_uniformity = non_uniformity,
                      u_uniformity_pass = uniformity_pass,
                      u_status = (if uniformity_pass then Pass else Fail),
                      u_position_status =
                        map (\<lambda>roi_value. if \<bar>roi_value - center_roi\<bar> \<le> 5.0 then Pass else Fail)
                          peripheral_rois\<rparr>))"

subsection \<open>Spatial resolution (spatial_resolution_section)\<close>

datatype quality = Excellent | Good | Fair | Poor

definition criteria_map :: "(string \<times> real) list" where
  "criteria_map =
    [(''Adult Abdomen'', 6.0), (''Adult Head'', 6.0), (''Ped Abd'', 6.0), (''Ped Head'', 6.0),
     (''High Resolution Chest'', 8.0)]"

text \<open>Line 945: \<^verbatim>\<open>required_resolution = criteria_map.get(protocol, 6.0)\<close>.\<close>

definition required_resolution_of :: "string \<Rightarrow> real" where
  "required_resolution_of protocol = dict_get criteria_map protocol 6.0"

text \<open>
  The three rows of the results table (minimum resolution, baseline comparison,
  visual assessment) with the overall result of line 964-965.
\<close>

record resolution_result =
  s_required_resolution :: real
  s_meets_minimum :: bool
  s_baseline_comparison :: bool
  s_min_status :: status
  s_baseline_status :: status
  s_visual_status :: status
  s_overall_pass :: bool
  s_overall_status :: status

text \<open>The handler, lines 945-1001.\<close>

definition spatial_resolution_section :: "string \<Rightarrow> real \<Rightarrow> real \<Rightarrow> quality \<Rightarrow> resolution_result" where
  "spatial_resolution_section protocol measured_resolution baseline_resolution visual_quality =
     (let required_resolution = required_resolution_of protocol;
          meets_minimum = (measured_resolution \<ge> required_resolution);
          baseline_comparison = (\<bar>measured_resolution - baseline_resolution\<bar> \<le> 1.0);
          overall_pass = (meets_minimum \<and> baseline_comparison)
      in \<lparr>s_required_resolution = required_resolution,
           s_meets_minimum = meets_minimum,
           s_baseline_comparison = baseline_comparison,
           s_min_status = (if meets_minimum then Pass else Fail),
           s_baseline_status = (if baseline_comparison then Pass else Monitor),
           s_visual_status = (if visual_quality \<in> set [Excellent, Good] then Pass else Monitor),
           s_overall_pass = overall_pass,
           s_overall_status = (if overall_pass then Pass else Fail)\<rparr>)"

text \<open>The statuses of the results table, in row order.\<close>

definition resolution_rows :: "resolution_result \<Rightarrow> status list" where
  "resolution_rows res = [s_min_status res, s_baseline_status res, s_visual_status res]"

subsection \<open>Control chart (data_analysis_section)\<close>

text \<open>
  Lines 1086-1101 on the values of the selected column, given the column's mean and
  standard deviation.
\<close>

datatype trend = Stable | Investigate

record control_summary =
  ucl_3sigma :: real
  lcl_3sigma :: real
  ucl_2sigma :: real
  lcl_2sigma :: real
  out_of_control :: "real list"
  warning_points :: "real list"
  trend_status :: trend

definition control_chart :: "real \<Rightarrow> real \<Rightarrow> real list \<Rightarrow> control_summary" where
  "control_chart mean_val std_val ys =
     (let ucl3 = mean_val + 3 * std_val;
          lcl3 = mean_val - 3 * std_val;
          ucl2 = mean_val + 2 * std_val;
          lcl2 = mean_val - 2 * std_val;
          ooc = filter (\<lambda>y. y > ucl3 \<or> y < lcl3) ys;
          warn = filter (\<lambda>y. (y > ucl2 \<and> y \<le> ucl3) \<or> (y < lcl2 \<and> y \<ge> lcl3)) ys
      in \<lparr>ucl_3sigma = ucl3, lcl_3sigma = lcl3, ucl_2sigma = ucl2, lcl_2sigma = lcl2,
           out_of_control = ooc, warning_points = warn,
           trend_status = (if length ooc = 0 then Stable else Investigate)\<rparr>)"

text \<open>
  \<^verbatim>\<open>df[y_col].mean()\<close> and \<^verbatim>\<open>df[y_col].std()\<close> are pandas' estimators: the arithmetic
  mean and the sample standard deviation with divisor \<open>n - 1\<close>, stated here for a
  column of at least two values (pandas returns NaN below that, and every comparison
  with NaN is false).
\<close>

definition series_mean :: "real list \<Rightarrow> real" where
  "series_mean ys = sum_list ys / real (length ys)"

definition series_std :: "real list \<Rightarrow> real" where
  "series_std ys =
     sqrt (sum_list (map (\<lambda>y. (y - series_mean ys)\<^sup>2) ys) / (real (length ys) - 1))"

definition data_analysis_section :: "real list \<Rightarrow> control_summary" where
  "data_analysis_section ys = control_chart (series_mean ys) (series_std ys) ys"

section \<open>Properties\<close>

subsection \<open>Dosimetry\<close>

lemma acr_limits_ordered:
  "dict_item acr_limits p = Inr limit \<Longrightarrow> 0 < ref limit \<and> ref limit < pf limit"
  by (auto simp: dict_item_def acr_limits_def split: if_splits)

lemma dosimetry_calculate_status:
  assumes "dosimetry_calculate p c t b l r = Inr res"
  shows "\<exists>limit. dict_item acr_limits p = Inr limit \<and> ref limit < pf limit
           \<and> r_ctdi_w res = ctdi_w_of c t b l r
           \<and> r_status res = ctdi_status (r_ctdi_w res) (ref limit) (pf limit)"
proof -
  from assms obtain limit where lim: "dict_item acr_limits p = Inr limit"
    by (auto simp: dosimetry_calculate_def Let_def split: if_splits sum.splits)
  from acr_limits_ordered [OF lim] have ord: "0 < ref limit" "ref limit < pf limit"
    by simp_all
  from assms lim ord have
    "r_ctdi_w res = ctdi_w_of c t b l r
     \<and> r_status res = ctdi_status (r_ctdi_w res) (ref limit) (pf limit)"
    by (auto simp: dosimetry_calculate_def Let_def truediv_def ctdi_w_of_def
             split: if_splits)
  with lim ord show ?thesis by blast
qed

text \<open>
  C1. Two-tier dose classification: with the reference limit below the pass/fail
  limit, a CTDI_w is Pass exactly when it is at most the reference limit, Minor
  exactly when it is above the reference limit and at most the pass/fail limit, and
  MajorFail exactly when it is above the pass/fail limit. Both boundaries are
  inclusive: the reference limit itself is Pass, the pass/fail limit itself is Minor.
  Every dosimetry evaluation that produces a result classifies its computed CTDI_w
  this way against the limits of its protocol, whose reference limit is below its
  pass/fail limit.
\<close>

theorem dosimetry_two_tier:
  "(lim_ref < lim_pf \<longrightarrow>
      (ctdi_status v lim_ref lim_pf = Pass \<longleftrightarrow> v \<le> lim_ref)
    \<and> (ctdi_status v lim_ref lim_pf = Minor \<longleftrightarrow> lim_ref < v \<and> v \<le> lim_pf)
    \<and> (ctdi_status v lim_ref lim_pf = MajorFail \<longleftrightarrow> lim_pf < v)
    \<and> ctdi_status lim_ref lim_ref lim_pf = Pass
    \<and> ctdi_status lim_pf lim_ref lim_pf = Minor)
 \<and> (dosimetry_calculate p c t b l r = Inr res \<longrightarrow>
      (\<exists>limit. dict_item acr_limits p = Inr limit \<and> ref limit < pf limit
         \<and> r_ctdi_w res = ctdi_w_of c t b l r
         \<and> (r_status res = Pass \<longleftrightarrow> r_ctdi_w res \<le> ref limit)
         \<and> (r_status res = Minor \<longleftrightarrow> ref limit < r_ctdi_w res \<and> r_ctdi_w res \<le> pf limit)
         \<and> (r_status res = MajorFail \<longleftrightarrow> pf limit < r_ctdi_w res)))"
proof (intro conjI impI)
  assume a: "dosimetry_calculate p c t b l r = Inr res"
  from dosimetry_calculate_status [OF a] obtain limit where
    lim: "dict_item acr_limits p = Inr limit" and ord: "ref limit < pf limit"
    and w: "r_ctdi_w res = ctdi_w_of c t b l r"
    and st: "r_status res = ctdi_status (r_ctdi_w res) (ref limit) (pf limit)"
    by blast
  from ord have
    "(ctdi_status (r_ctdi_w res) (ref limit) (pf limit) = Pass \<longleftrightarrow> r_ctdi_w res \<le> ref limit)
   \<and> (ctdi_status (r_ctdi_w res) (ref limit) (pf limit) = Minor
        \<longleftrightarrow> ref limit < r_ctdi_w res \<and> r_ctdi_w res \<le> pf limit)
   \<and> (ctdi_status (r_ctdi_w res) (ref limit) (pf limit) = MajorFail \<longleftrightarrow> pf limit < r_ctdi_w res)"
    by (auto simp: ctdi_status_def)
  with lim ord w st show
    "\<exists>limit. dict_item acr_limits p = Inr limit \<and> ref limit < pf limit
         \<and> r_ctdi_w res = ctdi_w_of c t b l r
         \<and> (r_status res = Pass \<longleftrightarrow> r_ctdi_w res \<le> ref limit)
         \<and> (r_status res = Minor \<longleftrightarrow> ref limit < r_ctdi_w res \<and> r_ctdi_w res \<le> pf limit)
         \<and> (r_status res = MajorFail \<longleftrightarrow> pf limit < r_ctdi_w res)"
    by auto
qed (auto simp: ctdi_status_def)

lemma dosimetry_calculate_all_18:
  "dosimetry_calculate ''Adult Abdomen'' 18 18 18 18 18 =
     Inr \<lparr>r_ctdi_center = 18, r_ctdi_periphery = 18, r_ctdi_w = 18,
          r_pct_ref = 72, r_pct_pf = 60, r_status = Pass\<rparr>"
  by (simp add: dosimetry_calculate_def ctdi_periphery_avg_def dict_item_def
        acr_limits_def truediv_def ctdi_status_def)

theorem dosimetry_two_tier_witness:
  "(25::real) < 30
   \<and> ctdi_status 24 25 30 = Pass \<and> ctdi_status 25 25 30 = Pass
   \<and> ctdi_status 27 25 30 = Minor \<and> ctdi_status 30 25 30 = Minor
   \<and> ctdi_status 31 25 30 = MajorFail
   \<and> (\<exists>res. dosimetry_calculate ''Adult Abdomen'' 18 18 18 18 18 = Inr res
         \<and> r_ctdi_w res = 18 \<and> r_status res = Pass)"
  using dosimetry_two_tier [of 25 30 24 "''Adult Abdomen''" 18 18 18 18 18]
    dosimetry_two_tier [of 25 30 27] dosimetry_two_tier [of 25 30 31]
    dosimetry_calculate_all_18
  by simp

text \<open>
  C8. CTDI_w is strictly increasing in each of its five readings, and five readings
  of 18 give 18.
\<close>

theorem ctdi_w_monotone:
  "(c < c' \<longrightarrow> ctdi_w_of c t b l r < ctdi_w_of c' t b l r)
 \<and> (t < t' \<longrightarrow> ctdi_w_of c t b l r < ctdi_w_of c t' b l r)
 \<and> (b < b' \<longrightarrow> ctdi_w_of c t b l r < ctdi_w_of c t b' l r)
 \<and> (l < l' \<longrightarrow> ctdi_w_of c t b l r < ctdi_w_of c t b l' r)
 \<and> (r < r' \<longrightarrow> ctdi_w_of c t b l r < ctdi_w_of c t b l r')
 \<and> ctdi_w_of 18 18 18 18 18 = 18"
  by (simp add: ctdi_w_of_def ctdi_periphery_avg_def)

theorem ctdi_w_monotone_witness:
  "(18::real) < 19
   \<and> ctdi_w_of 18 18 18 18 18 < ctdi_w_of 19 18 18 18 18
   \<and> ctdi_w_of 18 18 18 18 18 < ctdi_w_of 18 19 18 18 18
   \<and> ctdi_w_of 18 18 18 18 18 < ctdi_w_of 18 18 19 18 18
   \<and> ctdi_w_of 18 18 18 18 18 < ctdi_w_of 18 18 18 19 18
   \<and> ctdi_w_of 18 18 18 18 18 < ctdi_w_of 18 18 18 18 19"
  using ctdi_w_monotone [of 18 19 18 18 18 18 19 19 19 19] by simp

text \<open>
  C7, evaluated on the code. The guard of line 339 tests the centre reading and the
  average of the four peripheral readings, so an evaluation with three peripheral
  readings left at 0 is accepted: a result with CTDI_w = 7.2 mGy and status Pass is
  produced and stored, where the four readings of 18 mGy would give 18 mGy.
\<close>

theorem dosimetry_missing_peripheral_accepted:
  "dosimetry_section Map.empty ''Adult Abdomen'' 18 18 0 0 0 =
     (Inr \<lparr>r_ctdi_center = 18, r_ctdi_periphery = 4.5, r_ctdi_w = 7.2,
           r_pct_ref = 28.8, r_pct_pf = 24, r_status = Pass\<rparr>,
      [''Adult Abdomen'' \<mapsto>
         \<lparr>r_ctdi_center = 18, r_ctdi_periphery = 4.5, r_ctdi_w = 7.2,
          r_pct_ref = 28.8, r_pct_pf = 24, r_status = Pass\<rparr>])"
  by (simp add: dosimetry_section_def dosimetry_calculate_def ctdi_periphery_avg_def
        dict_item_def acr_limits_def truediv_def ctdi_status_def)

text \<open>
  What the guard does reject: a centre reading that is not positive, or peripheral
  readings whose sum is not positive. A rejected evaluation leaves the store as it was.
\<close>

lemma dosimetry_guard:
  "dosimetry_calculate p c t b l r = Inl InvalidMeasurements \<longleftrightarrow> \<not> (0 < c \<and> 0 < t + b + l + r)"
  by (auto simp: dosimetry_calculate_def ctdi_periphery_avg_def Let_def dict_item_def
        truediv_def split: option.splits)

lemma dosimetry_error_keeps_store:
  "dosimetry_calculate p c t b l r = Inl e \<Longrightarrow>
     dosimetry_section store p c t b l r = (Inl e, store)"
  by (simp add: dosimetry_section_def)

subsection \<open>Beam collimation\<close>

text \<open>
  C2 as stated fails: with readings 100 mR without and 120 mR with the mask over a
  5 mm mask the calibration slope is negative, and the evaluation returns the four
  rows with beam width 0, the 1.25 mm row marked Pass, instead of an error.
\<close>

theorem beam_nonpositive_slope_counterexample:
  "(100 - 120) / (5::real) \<le> 0
   \<and> beam_collimation_section 5 100 120 =
       Inr ([\<lparr>b_nominal = 15, b_measured = 470.3, b_beam_width = 0, b_error = - 15,
               b_criteria = 4.5, b_result = Fail\<rparr>,
             \<lparr>b_nominal = 10, b_measured = 346.5, b_beam_width = 0, b_error = - 10,
               b_criteria = 3, b_result = Fail\<rparr>,
             \<lparr>b_nominal = 5, b_measured = 195.7, b_beam_width = 0, b_error = - 5,
               b_criteria = 3, b_result = Fail\<rparr>,
             \<lparr>b_nominal = 1.25, b_measured = 45.46, b_beam_width = 0, b_error = - 1.25,
               b_criteria = 3, b_result = Pass\<rparr>],
            Some Fail)"
  by (simp add: beam_collimation_section_def truediv_def test_data_def beam_row_of_def
        beam_overall_def Let_def)

text \<open>
  C2, amended. With both readings and the mask length positive, a non-positive
  calibration slope raises no error: the evaluation takes beam width 0 for each of the
  four tested collimations and classifies the rows against their criteria (the 15, 10
  and 5 mm rows fail, the 1.25 mm row passes), with overall status Fail.
\<close>

theorem beam_nonpositive_slope:
  assumes "0 < without_mask" "0 < with_mask" "0 < mask_length"
    and "(without_mask - with_mask) / mask_length \<le> 0"
  shows "\<exists>rows. beam_collimation_section mask_length without_mask with_mask = Inr (rows, Some Fail)
           \<and> map b_nominal rows = [15, 10, 5, 1.25]
           \<and> map b_beam_width rows = [0, 0, 0, 0]
           \<and> map b_result rows = [Fail, Fail, Fail, Pass]"
  using assms
  by (simp add: beam_collimation_section_def truediv_def test_data_def beam_row_of_def
        beam_overall_def Let_def)

theorem beam_nonpositive_slope_witness:
  "(0::real) < 100 \<and> (0::real) < 5.01 \<and> (100 - 100) / (5.01::real) \<le> 0
   \<and> (\<exists>rows. beam_collimation_section 5.01 100 100 = Inr (rows, Some Fail)
           \<and> map b_beam_width rows = [0, 0, 0, 0]
           \<and> map b_result rows = [Fail, Fail, Fail, Pass])"
  using beam_nonpositive_slope [of 100 100 "5.01"] by auto

subsection \<open>Spatial resolution\<close>

text \<open>
  C3 as stated fails: for the Adult Abdomen protocol with 7 lp/cm measured against a
  baseline of 9 lp/cm, the rows are Pass, Monitor, Pass and the overall status is Fail.
\<close>

theorem resolution_monitor_counterexample:
  "resolution_rows (spatial_resolution_section ''Adult Abdomen'' 7 9 Excellent) = [Pass, Monitor, Pass]
   \<and> s_overall_status (spatial_resolution_section ''Adult Abdomen'' 7 9 Excellent) = Fail"
  by (simp add: resolution_rows_def spatial_resolution_section_def required_resolution_of_def
        dict_get_def criteria_map_def Let_def)

text \<open>
  C3, amended. In the spatial-resolution results, when every row is Pass except for
  at least one Monitor, the overall status is never Monitor: it is Fail when the
  baseline-comparison row is Monitor, and it stays Pass when only the
  visual-assessment row is Monitor.
\<close>

theorem resolution_monitor_overall:
  assumes "res = spatial_resolution_section protocol measured baseline visual"
    and "set (resolution_rows res) \<subseteq> {Pass, Monitor}"
    and "Monitor \<in> set (resolution_rows res)"
  shows "s_overall_status res \<noteq> Monitor
       \<and> (s_baseline_status res = Monitor \<longrightarrow> s_overall_status res = Fail)
       \<and> (s_baseline_status res = Pass \<longrightarrow> s_visual_status res = Monitor \<and> s_overall_status res = Pass)"
  using assms
  by (auto simp: resolution_rows_def spatial_resolution_section_def Let_def split: if_splits)

lemma resolution_rows_baseline_monitor:
  "resolution_rows (spatial_resolution_section ''Adult Abdomen'' 7 9 Excellent) = [Pass, Monitor, Pass]"
  by (simp add: resolution_rows_def spatial_resolution_section_def required_resolution_of_def
        dict_get_def criteria_map_def Let_def)

lemma resolution_rows_visual_monitor:
  "resolution_rows (spatial_resolution_section ''Adult Abdomen'' 7 7 Fair) = [Pass, Pass, Monitor]"
  by (simp add: resolution_rows_def spatial_resolution_section_def required_resolution_of_def
        dict_get_def criteria_map_def Let_def)

theorem resolution_monitor_overall_witness:
  "resolution_rows (spatial_resolution_section ''Adult Abdomen'' 7 9 Excellent) = [Pass, Monitor, Pass]
   \<and> s_overall_status (spatial_resolution_section ''Adult Abdomen'' 7 9 Excellent) = Fail
   \<and> resolution_rows (spatial_resolution_section ''Adult Abdomen'' 7 7 Fair) = [Pass, Pass, Monitor]
   \<and> s_overall_status (spatial_resolution_section ''Adult Abdomen'' 7 7 Fair) = Pass"
  using resolution_monitor_overall [OF refl, of "''Adult Abdomen''" 7 9 Excellent]
    resolution_monitor_overall [OF refl, of "''Adult Abdomen''" 7 7 Fair]
    resolution_rows_baseline_monitor resolution_rows_visual_monitor
  by (simp add: resolution_rows_def)

subsection \<open>CT number accuracy\<close>

lemma ct_number_loop_rows:
  "ct_number_loop tbl items results all_pass =
     (results @ map (\<lambda>(m, x). ct_row_of tbl m x) items,
      all_pass \<and> list_all (\<lambda>(m, x). pass_criteria tbl m x) items)"
  by (induction items arbitrary: results all_pass) auto

text \<open>
  C4. Over any reference table, water passes exactly when the measured value is
  within 7 HU of the expected value, whatever tolerance the table lists for water;
  every other material passes exactly when it is within its table tolerance. A row is
  Pass exactly when its criterion holds, and the section's four rows follow this rule
  on the table of the source.
\<close>

theorem ct_number_tolerance:
  "(pass_criteria tbl Water x \<longleftrightarrow> \<bar>x - expected (tbl Water)\<bar> \<le> 7)
 \<and> (mat \<noteq> Water \<longrightarrow> (pass_criteria tbl mat x \<longleftrightarrow> \<bar>x - expected (tbl mat)\<bar> \<le> tolerance (tbl mat)))
 \<and> (c_result (ct_row_of tbl mat x) = Pass \<longleftrightarrow> pass_criteria tbl mat x)
 \<and> map c_result (fst (ct_number_accuracy_section air acrylic water bone)) =
      [if \<bar>air - (- 1000)\<bar> \<le> 100 then Pass else Fail,
       if \<bar>acrylic - 120\<bar> \<le> 40 then Pass else Fail,
       if \<bar>water - 0\<bar> \<le> 7 then Pass else Fail,
       if \<bar>bone - 850\<bar> \<le> 100 then Pass else Fail]"
  by (simp add: pass_criteria_def ct_row_of_def Let_def ct_number_accuracy_section_def
        ct_number_loop_rows materials_ref_def)

theorem ct_number_tolerance_witness:
  "Acrylic \<noteq> Water
   \<and> \<not> pass_criteria (\<lambda>m. \<lparr>expected = 0, tolerance = 40\<rparr>) Water 10
   \<and> pass_criteria (\<lambda>m. \<lparr>expected = 0, tolerance = 40\<rparr>) Acrylic 10
   \<and> pass_criteria materials_ref Water 7 \<and> \<not> pass_criteria materials_ref Water 7.5"
  using ct_number_tolerance [of "\<lambda>m. \<lparr>expected = 0, tolerance = 40\<rparr>" 10 Acrylic]
    ct_number_tolerance [of materials_ref 7 Acrylic]
    ct_number_tolerance [of materials_ref "7.5" Acrylic]
  by (simp add: materials_ref_def)

subsection \<open>Control chart\<close>

text \<open>
  C5 as stated fails: the series 3, -1, -1, -1 and nine zeros has mean 0 and sample
  standard deviation 1, so its first point lies exactly on the upper 3-sigma limit;
  the analysis lists it as a warning point.
\<close>

theorem control_chart_boundary_counterexample:
  "series_mean [3, - 1, - 1, - 1, 0, 0, 0, 0, 0, 0, 0, 0, 0] = 0
   \<and> series_std [3, - 1, - 1, - 1, 0, 0, 0, 0, 0, 0, 0, 0, 0] = 1
   \<and> ucl_3sigma (data_analysis_section [3, - 1, - 1, - 1, 0, 0, 0, 0, 0, 0, 0, 0, 0]) = 3
   \<and> warning_points (data_analysis_section [3, - 1, - 1, - 1, 0, 0, 0, 0, 0, 0, 0, 0, 0]) = [3]
   \<and> out_of_control (data_analysis_section [3, - 1, - 1, - 1, 0, 0, 0, 0, 0, 0, 0, 0, 0]) = []"
  by (simp add: data_analysis_section_def control_chart_def series_mean_def series_std_def Let_def)

text \<open>
  C5, amended. A point is a warning point exactly when its distance from the mean is
  more than two and at most three standard deviations, and out of control exactly
  when that distance is more than three standard deviations. With a positive standard
  deviation a point exactly on a 3-sigma limit is a warning point and not out of
  control. No point is both out of control and a warning point.
\<close>

theorem control_chart_classes:
  "(y \<in> set (warning_points (control_chart m s ys))
      \<longleftrightarrow> y \<in> set ys \<and> 2 * s < \<bar>y - m\<bar> \<and> \<bar>y - m\<bar> \<le> 3 * s)
 \<and> (y \<in> set (out_of_control (control_chart m s ys)) \<longleftrightarrow> y \<in> set ys \<and> 3 * s < \<bar>y - m\<bar>)
 \<and> (0 < s \<and> y \<in> set ys \<and> \<bar>y - m\<bar> = 3 * s \<longrightarrow>
       y \<in> set (warning_points (control_chart m s ys))
     \<and> y \<notin> set (out_of_control (control_chart m s ys)))
 \<and> set (out_of_control (control_chart m s ys)) \<inter> set (warning_points (control_chart m s ys)) = {}"
  by (auto simp: control_chart_def Let_def)

theorem control_chart_classes_witness:
  "(0::real) < 2 \<and> (6::real) \<in> set [6, 6.1, 4.5, 4, 0] \<and> \<bar>(6::real) - 0\<bar> = 3 * 2
   \<and> warning_points (control_chart 0 2 [6, 6.1, 4.5, 4, 0]) = [6, 4.5]
   \<and> out_of_control (control_chart 0 2 [6, 6.1, 4.5, 4, 0]) = [6.1]"
  using control_chart_classes [of 6 0 2 "[6, 6.1, 4.5, 4, 0]"]
  by (simp add: control_chart_def Let_def)

subsection \<open>Criterion lookups\<close>




subsection \<open>Guarded ratios\<close>

text \<open>
  C9. The contrast-to-noise ratio and the non-uniformity percentage always evaluate
  to a value, never to a division error: the CNR is 0 when the noise standard
  deviation is 0, and the non-uniformity is 0 when the largest and smallest ROI
  values sum to 0. The two sections that compute them always return a result.
\<close>

theorem ratio_guards_total:
  "(\<exists>v. cnr_of signal noise noise_sd = Inr v)
 \<and> cnr_of signal noise 0 = Inr 0
 \<and> (\<exists>v. non_uniformity_of roi_max roi_min = Inr v)
 \<and> (roi_max + roi_min = 0 \<longrightarrow> non_uniformity_of roi_max roi_min = Inr 0)
 \<and> (\<exists>res. low_contrast_resolution_section vis protocol signal noise noise_sd = Inr res
       \<and> (noise_sd = 0 \<longrightarrow> l_cnr res = 0))
 \<and> (\<exists>res. ct_uniformity_section center_roi top_roi bottom_roi left_roi right_roi = Inr res
       \<and> (u_roi_max res + u_roi_min res = 0 \<longrightarrow> u_non_uniformity res = 0))"
  by (simp add: cnr_of_def truediv_def non_uniformity_of_def
        low_contrast_resolution_section_def ct_uniformity_section_def Let_def)

theorem ratio_guards_total_witness:
  "(3::real) + (- 3) = 0 \<and> non_uniformity_of 3 (- 3) = Inr 0
 \<and> cnr_of 95 89 0 = Inr 0
 \<and> (\<exists>res. low_contrast_resolution_section
      \<lparr>vis_6mm_03 = True, vis_6mm_05 = False, vis_6mm_10 = False,
       vis_4mm_03 = False, vis_4mm_05 = False, vis_4mm_10 = False,
       vis_3mm_03 = False, vis_3mm_05 = False, vis_3mm_10 = False,
       vis_2mm_03 = False, vis_2mm_05 = False, vis_2mm_10 = False\<rparr>
      ''Adult Head'' 95 89 0 = Inr res \<and> l_cnr res = 0)
 \<and> (\<exists>res. ct_uniformity_section 0 3 (- 3) 4 (- 4) = Inr res
       \<and> u_roi_max res = 4 \<and> u_roi_min res = - 4 \<and> u_non_uniformity res = 0)"
  using ratio_guards_total [of 95 89 0 3 "- 3"
      "\<lparr>vis_6mm_03 = True, vis_6mm_05 = False, vis_6mm_10 = False,
       vis_4mm_03 = False, vis_4mm_05 = False, vis_4mm_10 = False,
       vis_3mm_03 = False, vis_3mm_05 = False, vis_3mm_10 = False,
       vis_2mm_03 = False, vis_2mm_05 = False, vis_2mm_10 = False\<rparr>"
      "''Adult Head''" 0 3 "- 3" 4 "- 4"]
  by (simp add: ct_uniformity_section_def max_of_def min_of_def non_uniformity_of_def Let_def)

subsection \<open>Low contrast resolution\<close>



end
